theory Spec2Isabelle
  imports Complex_Main
begin

section \<open>Python values, dictionaries and exceptions\<close>

text \<open>
  The detector of \<^verbatim>\<open>anomaly_detector.py\<close> reads a loosely typed summary
  dictionary. A value of that dictionary is \<open>None\<close>, a number, a string, a list or a
  nested dictionary. Numbers are modelled as reals: Python's \<open>int\<close>, \<open>bool\<close>
  (a subclass of \<open>int\<close>) and finite \<open>float\<close> values all compare and add as the
  numbers they denote; rounding error, \<open>nan\<close> and the infinities are outside the model.
  A Python \<open>str\<close> is modelled by its UTF-8 encoding, a \<open>string\<close>; equality and
  emptiness agree with Python's. A dictionary is an association list, looked up with
  \<open>map_of\<close>.
\<close>

datatype pyval =
    PNone
  | PNum real
  | PStr string
  | PList "pyval list"
  | PDict "(string \<times> pyval) list"

type_synonym 'v dict = "(string \<times> 'v) list"

datatype py_error = KeyError | TypeError | AttributeError

text \<open>Sequencing of two steps, the first of which may raise.\<close>

fun and_then :: "py_error + 'a \<Rightarrow> ('a \<Rightarrow> py_error + 'b) \<Rightarrow> py_error + 'b" where
  "and_then (Inl e) f = Inl e"
| "and_then (Inr x) f = f x"

text \<open>\<^verbatim>\<open>d.get(k)\<close> and \<^verbatim>\<open>d.get(k, default)\<close>: a missing key gives \<open>None\<close>, or
  the default; a key that is present gives its value, also when that value is \<open>None\<close>.\<close>

definition dict_get :: "pyval dict \<Rightarrow> string \<Rightarrow> pyval" where
  "dict_get d k = (case map_of d k of None \<Rightarrow> PNone | Some v \<Rightarrow> v)"

definition dict_get_default :: "pyval dict \<Rightarrow> string \<Rightarrow> pyval \<Rightarrow> pyval" where
  "dict_get_default d k dflt = (case map_of d k of None \<Rightarrow> dflt | Some v \<Rightarrow> v)"

text \<open>\<^verbatim>\<open>d[k]\<close> on a configuration dictionary: a missing key raises \<open>KeyError\<close>.\<close>

definition getitem :: "real dict \<Rightarrow> string \<Rightarrow> py_error + real" where
  "getitem d k = (case map_of d k of None \<Rightarrow> Inl KeyError | Some v \<Rightarrow> Inr v)"

text \<open>The left operand of \<^verbatim>\<open>v > number\<close>: ordering anything but a number against a
  number raises \<open>TypeError\<close>.\<close>

fun number_operand :: "pyval \<Rightarrow> py_error + real" where
  "number_operand (PNum x) = Inr x"
| "number_operand v = Inl TypeError"

text \<open>The receiver of \<^verbatim>\<open>v.get(...)\<close>: only a dictionary has the method, anything else
  raises \<open>AttributeError\<close>.\<close>

fun get_method :: "pyval \<Rightarrow> py_error + pyval dict" where
  "get_method (PDict d) = Inr d"
| "get_method v = Inl AttributeError"

text \<open>Truth value of an object in a condition.\<close>

fun truthy :: "pyval \<Rightarrow> bool" where
  "truthy PNone = False"
| "truthy (PNum x) = (x \<noteq> 0)"
| "truthy (PStr s) = (s \<noteq> [])"
| "truthy (PList xs) = (xs \<noteq> [])"
| "truthy (PDict d) = (d \<noteq> [])"

section \<open>Configuration (\<^verbatim>\<open>config.py\<close>)\<close>

text \<open>The thresholds are read from the environment with a fallback literal; the model
  takes the fallback of each, that is, the environment variables are unset.\<close>

definition THRESHOLDS :: "real dict" where
  "THRESHOLDS =
    [(''cpu_usage'', 80),
     (''memory_usage'', 85),
     (''swap_usage'', 50),
     (''disk_usage'', 90),
     (''iowait'', 20),
     (''load1_per_cpu'', 2),
     (''network_errors_per_sec'', 10),
     (''tcp_retrans_per_sec'', 50)]"

definition SEVERITY_WEIGHTS :: "real dict" where
  "SEVERITY_WEIGHTS =
    [(''system_down'', 100),
     (''cpu_high'', 30),
     (''iowait_high'', 20),
     (''load_extreme'', 15),
     (''memory_high'', 25),
     (''swap_high'', 20),
     (''disk_high'', 20),
     (''fs_readonly'', 50),
     (''network_errors'', 15),
     (''tcp_retrans'', 15),
     (''tcp_overflow'', 20)]"

definition SEVERITY_THRESHOLDS :: "real dict" where
  "SEVERITY_THRESHOLDS =
    [(''critical'', 80),
     (''high'', 40),
     (''medium'', 20),
     (''low'', 1)]"

definition CRITICAL_USAGE_THRESHOLD :: real where
  "CRITICAL_USAGE_THRESHOLD = 95"

section \<open>The detector object\<close>

record detector =
  thresholds :: "real dict"
  weights :: "real dict"
  severity_thresholds :: "real dict"

text \<open>\<^verbatim>\<open>x or DEFAULT\<close> for an optional dictionary argument: \<open>None\<close> and the empty
  dictionary are both false, so both give the default.\<close>

fun or_default :: "'v dict option \<Rightarrow> 'v dict \<Rightarrow> 'v dict" where
  "or_default None dflt = dflt"
| "or_default (Some []) dflt = dflt"
| "or_default (Some (kv # d)) dflt = kv # d"

definition init ::
  "real dict option \<Rightarrow> real dict option \<Rightarrow> real dict option \<Rightarrow> detector" where
  "init thresholds_arg weights_arg severity_thresholds_arg =
    \<lparr>thresholds = or_default thresholds_arg THRESHOLDS,
     weights = or_default weights_arg SEVERITY_WEIGHTS,
     severity_thresholds = or_default severity_thresholds_arg SEVERITY_THRESHOLDS\<rparr>"

section \<open>Anomaly records and their messages\<close>

text \<open>An anomaly record is a dictionary with the keys \<open>metric\<close>, \<open>message\<close>,
  \<open>severity\<close>, \<open>value\<close> and, for some checks, \<open>threshold\<close> and \<open>mountpoint\<close>; the
  optional keys are \<open>option\<close> fields, and \<open>value\<close> is the field \<open>val\<close>.\<close>

record anomaly =
  metric :: string
  message :: string
  severity :: string
  val :: real
  threshold :: "real option"
  mountpoint :: "pyval option"

text \<open>The result dictionary of \<open>detect\<close>; its key \<open>severity\<close> is the field
  \<open>overall_severity\<close>.\<close>

record detection =
  is_anomaly :: bool
  anomalies :: "anomaly list"
  overall_severity :: string
  severity_score :: real
  anomaly_count :: nat

text \<open>The messages are f-strings. What \<^verbatim>\<open>{x:.1f}\<close> and \<^verbatim>\<open>{x}\<close> print is the
  language runtime's business and a parameter of the model: \<open>format_fixed n x\<close> stands for
  \<^verbatim>\<open>format(x, ".nf")\<close> and \<open>format_str v\<close> for \<^verbatim>\<open>str(v)\<close>.\<close>

record formatting =
  format_fixed :: "nat \<Rightarrow> real \<Rightarrow> string"
  format_str :: "pyval \<Rightarrow> string"

text \<open>The literal text of the messages is Japanese; it is given by its code points and
  encoded to UTF-8.\<close>

definition utf8_char :: "nat \<Rightarrow> string" where
  "utf8_char c =
    (if c < 0x80 then [char_of c]
     else if c < 0x800 then [char_of (0xC0 + c div 0x40), char_of (0x80 + c mod 0x40)]
     else if c < 0x10000 then
       [char_of (0xE0 + c div 0x1000), char_of (0x80 + c div 0x40 mod 0x40),
        char_of (0x80 + c mod 0x40)]
     else
       [char_of (0xF0 + c div 0x40000), char_of (0x80 + c div 0x1000 mod 0x40),
        char_of (0x80 + c div 0x40 mod 0x40), char_of (0x80 + c mod 0x40)])"

definition utf8 :: "nat list \<Rightarrow> string" where
  "utf8 cs = concat (map utf8_char cs)"

definition message_up :: string where
  "message_up =
    utf8 [0x76E3, 0x8996, 0x5BFE, 0x8C61, 0x304C, 0x30C0, 0x30A6, 0x30F3, 0x3057, 0x3066,
          0x3044, 0x307E, 0x3059]"

definition message_cpu_usage :: "formatting \<Rightarrow> real \<Rightarrow> string" where
  "message_cpu_usage F cpu_usage =
    ''CPU'' @ utf8 [0x4F7F, 0x7528, 0x7387, 0x304C, 0x9AD8, 0x3044] @ '' ('' @
    format_fixed F 1 cpu_usage @ ''%)''"

definition message_cpu_iowait :: "formatting \<Rightarrow> real \<Rightarrow> string" where
  "message_cpu_iowait F iowait =
    ''I/O'' @ utf8 [0x5F85, 0x3061, 0x304C, 0x591A, 0x3044] @ '' ('' @
    format_fixed F 1 iowait @ ''%)''"

definition message_load1 :: "formatting \<Rightarrow> real \<Rightarrow> string" where
  "message_load1 F load1 =
    ''Load Average (1'' @ utf8 [0x5206] @ '') '' @ utf8 [0x304C, 0x9AD8, 0x3044] @ '' ('' @
    format_fixed F 2 load1 @ '')''"

definition message_memory_usage :: "formatting \<Rightarrow> real \<Rightarrow> string" where
  "message_memory_usage F memory_usage =
    utf8 [0x30E1, 0x30E2, 0x30EA, 0x4F7F, 0x7528, 0x7387, 0x304C, 0x9AD8, 0x3044] @ '' ('' @
    format_fixed F 1 memory_usage @ ''%)''"

definition message_swap_usage :: "formatting \<Rightarrow> real \<Rightarrow> string" where
  "message_swap_usage F swap_usage =
    utf8 [0x30B9, 0x30EF, 0x30C3, 0x30D7, 0x4F7F, 0x7528, 0x7387, 0x304C, 0x9AD8, 0x3044] @
    '' ('' @ format_fixed F 1 swap_usage @ ''%)''"

definition message_fs_usage :: "formatting \<Rightarrow> pyval \<Rightarrow> real \<Rightarrow> string" where
  "message_fs_usage F mountpoint_value usage =
    utf8 [0x30C7, 0x30A3, 0x30B9, 0x30AF, 0x4F7F, 0x7528, 0x7387, 0x304C, 0x9AD8, 0x3044] @
    '' ('' @ format_str F mountpoint_value @ '': '' @ format_fixed F 1 usage @ ''%)''"

definition message_fs_readonly :: string where
  "message_fs_readonly =
    utf8 [0x8AAD, 0x307F, 0x53D6, 0x308A, 0x5C02, 0x7528, 0x306E, 0x30D5, 0x30A1, 0x30A4,
          0x30EB, 0x30B7, 0x30B9, 0x30C6, 0x30E0, 0x304C, 0x5B58, 0x5728]"

definition message_network_err :: "formatting \<Rightarrow> real \<Rightarrow> string" where
  "message_network_err F net_err =
    utf8 [0x30CD, 0x30C3, 0x30C8, 0x30EF, 0x30FC, 0x30AF, 0x30A8, 0x30E9, 0x30FC, 0x304C,
          0x591A, 0x3044] @
    '' ('' @ format_fixed F 1 net_err @ ''/'' @ utf8 [0x79D2] @ '')''"

definition message_tcp_retrans :: "formatting \<Rightarrow> real \<Rightarrow> string" where
  "message_tcp_retrans F tcp_retrans =
    ''TCP'' @ utf8 [0x518D, 0x9001, 0x304C, 0x591A, 0x3044] @ '' ('' @
    format_fixed F 1 tcp_retrans @ ''/'' @ utf8 [0x79D2] @ '')''"

definition message_tcp_overflow :: "formatting \<Rightarrow> real \<Rightarrow> string" where
  "message_tcp_overflow F tcp_overflow =
    ''TCP'' @
    utf8 [0x30EA, 0x30C3, 0x30B9, 0x30F3, 0x30AD, 0x30E5, 0x30FC, 0x304C, 0x3042, 0x3075,
          0x308C, 0x3066, 0x3044, 0x308B] @
    '' ('' @ format_fixed F 1 tcp_overflow @ ''/'' @ utf8 [0x79D2] @ '')''"

section \<open>The checks of \<open>detect\<close>, in the order of the source\<close>

text \<open>Each check takes the anomaly list and the running score (the source's variables
  \<open>anomalies\<close> and \<open>severity_score\<close>, here \<open>anoms\<close> and \<open>score\<close>) and returns
  them updated, or the exception it raises. An exception ends \<open>detect\<close>, so the state of a check that
  raises is not kept.\<close>

type_synonym acc = "anomaly list \<times> real"

definition check_up :: "detector \<Rightarrow> pyval dict \<Rightarrow> acc \<Rightarrow> py_error + acc" where
  "check_up self summary acc =
    (case acc of (anoms, score) \<Rightarrow>
      if dict_get summary ''up'' = PNum 0 then
        and_then (getitem (weights self) ''system_down'') (\<lambda>w.
          Inr (anoms @
                 [\<lparr>metric = ''up'', message = message_up, severity = ''critical'',
                   val = 0, threshold = None, mountpoint = None\<rparr>],
               score + w))
      else Inr acc)"

definition check_cpu :: "formatting \<Rightarrow> detector \<Rightarrow> pyval dict \<Rightarrow> acc \<Rightarrow> py_error + acc" where
  "check_cpu F self summary acc =
    (case acc of (anoms, score) \<Rightarrow>
      let cpu_usage = dict_get summary ''cpu_usage'' in
      if cpu_usage = PNone then Inr acc
      else
        and_then (getitem (thresholds self) ''cpu_usage'') (\<lambda>t.
        and_then (number_operand cpu_usage) (\<lambda>v.
          if v > t then
            let excess = (v - t) / 2 in
            and_then (getitem (weights self) ''cpu_high'') (\<lambda>w.
              Inr (anoms @
                     [\<lparr>metric = ''cpu_usage'', message = message_cpu_usage F v,
                       severity =
                         (if v < CRITICAL_USAGE_THRESHOLD then ''warning'' else ''critical''),
                       val = v, threshold = Some t, mountpoint = None\<rparr>],
                   score + min w excess))
          else Inr acc)))"

definition check_iowait :: "formatting \<Rightarrow> detector \<Rightarrow> pyval dict \<Rightarrow> acc \<Rightarrow> py_error + acc" where
  "check_iowait F self summary acc =
    (case acc of (anoms, score) \<Rightarrow>
      let iowait = dict_get summary ''cpu_iowait'' in
      if iowait = PNone then Inr acc
      else
        and_then (getitem (thresholds self) ''iowait'') (\<lambda>t.
        and_then (number_operand iowait) (\<lambda>v.
          if v > t then
            let excess = v - t in
            and_then (getitem (weights self) ''iowait_high'') (\<lambda>w.
              Inr (anoms @
                     [\<lparr>metric = ''cpu_iowait'', message = message_cpu_iowait F v,
                       severity = ''warning'',
                       val = v, threshold = Some t, mountpoint = None\<rparr>],
                   score + min w excess))
          else Inr acc)))"

definition check_load1 :: "formatting \<Rightarrow> detector \<Rightarrow> pyval dict \<Rightarrow> acc \<Rightarrow> py_error + acc" where
  "check_load1 F self summary acc =
    (case acc of (anoms, score) \<Rightarrow>
      let load1 = dict_get summary ''load1'' in
      if load1 = PNone then Inr acc
      else
        let extreme_load_threshold = 10 in
        and_then (number_operand load1) (\<lambda>v.
          if v > extreme_load_threshold then
            and_then (getitem (weights self) ''load_extreme'') (\<lambda>w.
              Inr (anoms @
                     [\<lparr>metric = ''load1'', message = message_load1 F v,
                       severity = ''warning'',
                       val = v, threshold = None, mountpoint = None\<rparr>],
                   score + min w v))
          else Inr acc))"

definition check_memory :: "formatting \<Rightarrow> detector \<Rightarrow> pyval dict \<Rightarrow> acc \<Rightarrow> py_error + acc" where
  "check_memory F self summary acc =
    (case acc of (anoms, score) \<Rightarrow>
      let memory_usage = dict_get summary ''memory_usage'' in
      if memory_usage = PNone then Inr acc
      else
        and_then (getitem (thresholds self) ''memory_usage'') (\<lambda>t.
        and_then (number_operand memory_usage) (\<lambda>v.
          if v > t then
            let excess = (v - t) / 2 in
            and_then (getitem (weights self) ''memory_high'') (\<lambda>w.
              Inr (anoms @
                     [\<lparr>metric = ''memory_usage'', message = message_memory_usage F v,
                       severity =
                         (if v < CRITICAL_USAGE_THRESHOLD then ''warning'' else ''critical''),
                       val = v, threshold = Some t, mountpoint = None\<rparr>],
                   score + min w excess))
          else Inr acc)))"

definition check_swap :: "formatting \<Rightarrow> detector \<Rightarrow> pyval dict \<Rightarrow> acc \<Rightarrow> py_error + acc" where
  "check_swap F self summary acc =
    (case acc of (anoms, score) \<Rightarrow>
      let swap_usage = dict_get summary ''swap_usage'' in
      if swap_usage = PNone then Inr acc
      else
        and_then (getitem (thresholds self) ''swap_usage'') (\<lambda>t.
        and_then (number_operand swap_usage) (\<lambda>v.
          if v > t then
            let excess = v - t in
            and_then (getitem (weights self) ''swap_high'') (\<lambda>w.
              Inr (anoms @
                     [\<lparr>metric = ''swap_usage'', message = message_swap_usage F v,
                       severity = ''warning'',
                       val = v, threshold = Some t, mountpoint = None\<rparr>],
                   score + min w excess))
          else Inr acc)))"

text \<open>The body of the loop over \<open>fs_usage_top3\<close>.\<close>

definition check_fs_entry :: "formatting \<Rightarrow> detector \<Rightarrow> pyval \<Rightarrow> acc \<Rightarrow> py_error + acc" where
  "check_fs_entry F self fs acc =
    (case acc of (anoms, score) \<Rightarrow>
      and_then (get_method fs) (\<lambda>entry.
        let usage = dict_get entry ''value'' in
        if usage = PNone then Inr acc
        else
          and_then (getitem (thresholds self) ''disk_usage'') (\<lambda>t.
          and_then (number_operand usage) (\<lambda>v.
            if v > t then
              and_then (get_method (dict_get_default entry ''labels'' (PDict []))) (\<lambda>labels.
                let mp = dict_get_default labels ''mountpoint'' (PStr ''unknown'');
                    excess = (v - t) / 2
                in
                and_then (getitem (weights self) ''disk_high'') (\<lambda>w.
                  Inr (anoms @
                         [\<lparr>metric = ''fs_usage'', message = message_fs_usage F mp v,
                           severity =
                             (if v < CRITICAL_USAGE_THRESHOLD then ''warning''
                              else ''critical''),
                           val = v, threshold = Some t, mountpoint = Some mp\<rparr>],
                       score + min w excess)))
            else Inr acc))))"

fun fs_loop :: "formatting \<Rightarrow> detector \<Rightarrow> pyval list \<Rightarrow> acc \<Rightarrow> py_error + acc" where
  "fs_loop F self [] acc = Inr acc"
| "fs_loop F self (fs # rest) acc =
     and_then (check_fs_entry F self fs acc) (fs_loop F self rest)"

definition check_fs :: "formatting \<Rightarrow> detector \<Rightarrow> pyval dict \<Rightarrow> acc \<Rightarrow> py_error + acc" where
  "check_fs F self summary acc =
    (let fs_top3 = dict_get summary ''fs_usage_top3'' in
     case fs_top3 of
       PList entries \<Rightarrow> if truthy fs_top3 then fs_loop F self entries acc else Inr acc
     | _ \<Rightarrow> Inr acc)"

definition check_fs_readonly :: "detector \<Rightarrow> pyval dict \<Rightarrow> acc \<Rightarrow> py_error + acc" where
  "check_fs_readonly self summary acc =
    (case acc of (anoms, score) \<Rightarrow>
      and_then (number_operand (dict_get_default summary ''fs_readonly'' (PNum 0))) (\<lambda>v.
        if v > 0 then
          and_then (getitem (weights self) ''fs_readonly'') (\<lambda>w.
            Inr (anoms @
                   [\<lparr>metric = ''fs_readonly'', message = message_fs_readonly,
                     severity = ''critical'',
                     val = 1, threshold = None, mountpoint = None\<rparr>],
                 score + w))
        else Inr acc))"

definition check_network_err ::
  "formatting \<Rightarrow> detector \<Rightarrow> pyval dict \<Rightarrow> acc \<Rightarrow> py_error + acc" where
  "check_network_err F self summary acc =
    (case acc of (anoms, score) \<Rightarrow>
      let net_err = dict_get_default summary ''network_err_per_sec'' (PNum 0) in
      and_then (getitem (thresholds self) ''network_errors_per_sec'') (\<lambda>t.
      and_then (number_operand net_err) (\<lambda>v.
        if v > t then
          let excess = v - t in
          and_then (getitem (weights self) ''network_errors'') (\<lambda>w.
            Inr (anoms @
                   [\<lparr>metric = ''network_err_per_sec'', message = message_network_err F v,
                     severity = ''warning'',
                     val = v, threshold = Some t, mountpoint = None\<rparr>],
                 score + min w excess))
        else Inr acc)))"

definition check_tcp_retrans ::
  "formatting \<Rightarrow> detector \<Rightarrow> pyval dict \<Rightarrow> acc \<Rightarrow> py_error + acc" where
  "check_tcp_retrans F self summary acc =
    (case acc of (anoms, score) \<Rightarrow>
      let tcp_retrans = dict_get_default summary ''tcp_retrans_per_sec'' (PNum 0) in
      and_then (getitem (thresholds self) ''tcp_retrans_per_sec'') (\<lambda>t.
      and_then (number_operand tcp_retrans) (\<lambda>v.
        if v > t then
          let excess = (v - t) / 5 in
          and_then (getitem (weights self) ''tcp_retrans'') (\<lambda>w.
            Inr (anoms @
                   [\<lparr>metric = ''tcp_retrans_per_sec'', message = message_tcp_retrans F v,
                     severity = ''warning'',
                     val = v, threshold = Some t, mountpoint = None\<rparr>],
                 score + min w excess))
        else Inr acc)))"

definition check_tcp_overflow ::
  "formatting \<Rightarrow> detector \<Rightarrow> pyval dict \<Rightarrow> acc \<Rightarrow> py_error + acc" where
  "check_tcp_overflow F self summary acc =
    (case acc of (anoms, score) \<Rightarrow>
      let tcp_overflow = dict_get_default summary ''tcp_listen_overflow_per_sec'' (PNum 0) in
      and_then (number_operand tcp_overflow) (\<lambda>v.
        if v > 0 then
          and_then (getitem (weights self) ''tcp_overflow'') (\<lambda>w.
            Inr (anoms @
                   [\<lparr>metric = ''tcp_listen_overflow_per_sec'',
                     message = message_tcp_overflow F v,
                     severity = ''warning'',
                     val = v, threshold = None, mountpoint = None\<rparr>],
                 score + min w (v * 2)))
        else Inr acc))"

section \<open>\<open>detect\<close> and the severity classifier\<close>

definition checks ::
  "formatting \<Rightarrow> detector \<Rightarrow> pyval dict \<Rightarrow> (acc \<Rightarrow> py_error + acc) list" where
  "checks F self summary =
    [check_up self summary,
     check_cpu F self summary,
     check_iowait F self summary,
     check_load1 F self summary,
     check_memory F self summary,
     check_swap F self summary,
     check_fs F self summary,
     check_fs_readonly self summary,
     check_network_err F self summary,
     check_tcp_retrans F self summary,
     check_tcp_overflow F self summary]"

fun run_checks :: "(acc \<Rightarrow> py_error + acc) list \<Rightarrow> acc \<Rightarrow> py_error + acc" where
  "run_checks [] acc = Inr acc"
| "run_checks (c # cs) acc = and_then (c acc) (run_checks cs)"

text \<open>The part of \<open>detect\<close> before its final judgement: the anomaly list and the raw
  accumulated score.\<close>

definition evaluate :: "formatting \<Rightarrow> detector \<Rightarrow> pyval dict \<Rightarrow> py_error + acc" where
  "evaluate F self summary = run_checks (checks F self summary) ([], 0)"

definition calculate_severity :: "detector \<Rightarrow> real \<Rightarrow> py_error + string" where
  "calculate_severity self score =
    and_then (getitem (severity_thresholds self) ''critical'') (\<lambda>c.
      if score \<ge> c then Inr ''critical''
      else
        and_then (getitem (severity_thresholds self) ''high'') (\<lambda>h.
          if score \<ge> h then Inr ''high''
          else
            and_then (getitem (severity_thresholds self) ''medium'') (\<lambda>m.
              if score \<ge> m then Inr ''medium''
              else
                and_then (getitem (severity_thresholds self) ''low'') (\<lambda>l.
                  if score \<ge> l then Inr ''low'' else Inr ''normal''))))"

definition detect :: "formatting \<Rightarrow> detector \<Rightarrow> pyval dict \<Rightarrow> py_error + detection" where
  "detect F self summary =
    and_then (evaluate F self summary) (\<lambda>(anomalies_list, raw_score).
      let anomaly_flag = length anomalies_list > 0 in
      and_then (calculate_severity self raw_score) (\<lambda>tier.
        Inr \<lparr>is_anomaly = anomaly_flag,
             anomalies = anomalies_list,
             overall_severity = tier,
             severity_score = min 100 raw_score,
             anomaly_count = length anomalies_list\<rparr>))"

text \<open>The order of the five tiers.\<close>

definition tier_rank :: "string \<Rightarrow> nat" where
  "tier_rank t =
    (if t = ''critical'' then 4 else if t = ''high'' then 3 else if t = ''medium'' then 2
     else if t = ''low'' then 1 else 0)"

text \<open>The detector the program runs with: no configuration injected.\<close>

definition default_detector :: detector where
  "default_detector = init None None None"

text \<open>The names of the four configured tiers, highest first.\<close>

definition tier_names :: "string list" where
  "tier_names = [''critical'', ''high'', ''medium'', ''low'']"

text \<open>The classifier as the specification words it: the first tier, going down from
  \<open>critical\<close>, whose configured minimum is at most the score; \<open>normal\<close> when there is
  none. It is compared with \<open>calculate_severity\<close> below.\<close>

definition classify_spec :: "(string \<Rightarrow> real) \<Rightarrow> real \<Rightarrow> string" where
  "classify_spec minimum s =
    (case List.find (\<lambda>t. minimum t \<le> s) tier_names of None \<Rightarrow> ''normal'' | Some t \<Rightarrow> t)"

text \<open>The summary keys that \<open>detect\<close> reads.\<close>

definition consulted_keys :: "string list" where
  "consulted_keys =
    [''up'', ''cpu_usage'', ''cpu_iowait'', ''load1'', ''memory_usage'', ''swap_usage'',
     ''fs_usage_top3'', ''fs_readonly'', ''network_err_per_sec'', ''tcp_retrans_per_sec'',
     ''tcp_listen_overflow_per_sec'']"

text \<open>What every anomaly record has to satisfy, and what it means for a check to keep a
  list of such records.\<close>

definition well_formed :: "anomaly \<Rightarrow> bool" where
  "well_formed a \<longleftrightarrow>
     message a \<noteq> [] \<and> (severity a = ''warning'' \<or> severity a = ''critical'')"

definition preserves :: "(acc \<Rightarrow> py_error + acc) \<Rightarrow> bool" where
  "preserves c \<longleftrightarrow>
     (\<forall>anoms score anoms' score'.
        c (anoms, score) = Inr (anoms', score') \<longrightarrow> list_all well_formed anoms \<longrightarrow>
        list_all well_formed anoms')"

text \<open>A formatting to run the model on concrete inputs with; no result below depends on
  what it prints.\<close>

definition placeholder_formatting :: formatting where
  "placeholder_formatting = \<lparr>format_fixed = (\<lambda>n x. ''#''), format_str = (\<lambda>v. ''#'')\<rparr>"

text \<open>A labelled sample as \<^verbatim>\<open>execute_queries\<close> of \<^verbatim>\<open>prometheus_client.py\<close> builds
  it for a query with several results, \<^verbatim>\<open>{"labels": ..., "value": ...}\<close>, and the record
  that the loop body of the file-system check appends for such a sample under the default
  disk threshold.\<close>

definition fs_sample :: "pyval dict \<Rightarrow> real \<Rightarrow> pyval" where
  "fs_sample labels v = PDict [(''labels'', PDict labels), (''value'', PNum v)]"

definition fs_anomaly :: "formatting \<Rightarrow> pyval dict \<times> real \<Rightarrow> anomaly" where
  "fs_anomaly F =
    (\<lambda>(labels, v).
      \<lparr>metric = ''fs_usage'',
       message =
         message_fs_usage F (dict_get_default labels ''mountpoint'' (PStr ''unknown'')) v,
       severity = (if v < 95 then ''warning'' else ''critical''),
       val = v, threshold = Some 90,
       mountpoint = Some (dict_get_default labels ''mountpoint'' (PStr ''unknown''))\<rparr>)"

section \<open>Basic facts\<close>

lemma getitem_simps:
  "getitem [] k = Inl KeyError"
  "getitem ((k', v) # d) k = (if k' = k then Inr v else getitem d k)"
  by (simp_all add: getitem_def)

lemma getitem_Some: "map_of d k = Some v \<Longrightarrow> getitem d k = Inr v"
  by (simp add: getitem_def)

lemma and_then_Inr_iff: "and_then r f = Inr y \<longleftrightarrow> (\<exists>x. r = Inr x \<and> f x = Inr y)"
  by (cases r) simp_all

lemmas check_defs =
  check_up_def check_cpu_def check_iowait_def check_load1_def check_memory_def
  check_swap_def check_fs_def check_fs_entry_def check_fs_readonly_def
  check_network_err_def check_tcp_retrans_def check_tcp_overflow_def

lemmas default_defs =
  default_detector_def init_def THRESHOLDS_def SEVERITY_WEIGHTS_def SEVERITY_THRESHOLDS_def
  CRITICAL_USAGE_THRESHOLD_def

lemmas run_defs =
  detect_def evaluate_def checks_def check_defs dict_get_def dict_get_default_def
  getitem_simps default_defs calculate_severity_def Let_def

lemma calculate_severity_default:
  "calculate_severity default_detector s =
     Inr (if s < 1 then ''normal'' else if s < 20 then ''low'' else if s < 40 then ''medium''
          else if s < 80 then ''high'' else ''critical'')"
  by (simp add: calculate_severity_def default_defs getitem_simps)

lemma detect_Inr_iff:
  "detect F self summary = Inr r \<longleftrightarrow>
     (\<exists>anoms raw tier.
        evaluate F self summary = Inr (anoms, raw) \<and>
        calculate_severity self raw = Inr tier \<and>
        r = \<lparr>is_anomaly = (length anoms > 0), anomalies = anoms, overall_severity = tier,
             severity_score = min 100 raw, anomaly_count = length anoms\<rparr>)"
  by (auto simp: detect_def and_then_Inr_iff Let_def)

section \<open>Every anomaly record is well formed\<close>

lemma utf8_char_nonempty: "utf8_char c \<noteq> []"
  by (simp add: utf8_char_def)

lemma utf8_Cons_nonempty: "utf8 (c # cs) \<noteq> []"
  by (simp add: utf8_def utf8_char_nonempty)

lemma messages_nonempty:
  "message_up \<noteq> []"
  "message_cpu_usage F v \<noteq> []"
  "message_cpu_iowait F v \<noteq> []"
  "message_load1 F v \<noteq> []"
  "message_memory_usage F v \<noteq> []"
  "message_swap_usage F v \<noteq> []"
  "message_fs_usage F mp v \<noteq> []"
  "message_fs_readonly \<noteq> []"
  "message_network_err F v \<noteq> []"
  "message_tcp_retrans F v \<noteq> []"
  "message_tcp_overflow F v \<noteq> []"
  by (simp_all add: message_up_def message_cpu_usage_def message_cpu_iowait_def
      message_load1_def message_memory_usage_def message_swap_usage_def message_fs_usage_def
      message_fs_readonly_def message_network_err_def message_tcp_retrans_def
      message_tcp_overflow_def utf8_Cons_nonempty)

lemma preserves_up: "preserves (check_up self summary)"
  unfolding preserves_def check_up_def
  by (auto simp: and_then_Inr_iff well_formed_def messages_nonempty split: if_splits)

lemma preserves_cpu: "preserves (check_cpu F self summary)"
  unfolding preserves_def check_cpu_def
  by (auto simp: and_then_Inr_iff well_formed_def messages_nonempty Let_def split: if_splits)

lemma preserves_iowait: "preserves (check_iowait F self summary)"
  unfolding preserves_def check_iowait_def
  by (auto simp: and_then_Inr_iff well_formed_def messages_nonempty Let_def split: if_splits)

lemma preserves_load1: "preserves (check_load1 F self summary)"
  unfolding preserves_def check_load1_def
  by (auto simp: and_then_Inr_iff well_formed_def messages_nonempty Let_def split: if_splits)

lemma preserves_memory: "preserves (check_memory F self summary)"
  unfolding preserves_def check_memory_def
  by (auto simp: and_then_Inr_iff well_formed_def messages_nonempty Let_def split: if_splits)

lemma preserves_swap: "preserves (check_swap F self summary)"
  unfolding preserves_def check_swap_def
  by (auto simp: and_then_Inr_iff well_formed_def messages_nonempty Let_def split: if_splits)

lemma preserves_fs_entry: "preserves (check_fs_entry F self fs)"
  unfolding preserves_def check_fs_entry_def
  by (auto simp: and_then_Inr_iff well_formed_def messages_nonempty Let_def split: if_splits)

text \<open>A sequence of steps keeps the records well formed when each step does; the loop over
  the file systems and the sequence of the checks are both instances.\<close>

lemma preserves_and_then:
  assumes first: "preserves c" and others: "preserves k"
  shows "preserves (\<lambda>acc. and_then (c acc) k)"
  unfolding preserves_def
proof (intro allI impI)
  fix anoms score anoms' score'
  assume run: "and_then (c (anoms, score)) k = Inr (anoms', score')"
    and wf: "list_all well_formed anoms"
  from run obtain mid where
    c: "c (anoms, score) = Inr mid" and k: "k mid = Inr (anoms', score')"
    by (auto simp: and_then_Inr_iff)
  obtain anoms1 score1 where mid: "mid = (anoms1, score1)" by (cases mid)
  from first c wf mid have "list_all well_formed anoms1"
    unfolding preserves_def by blast
  with others k mid show "list_all well_formed anoms'"
    unfolding preserves_def by blast
qed

lemma preserves_fs_loop: "preserves (fs_loop F self entries)"
proof (induction entries)
  case Nil
  show ?case by (simp add: preserves_def)
next
  case (Cons fs rest)
  have "preserves (\<lambda>acc. and_then (check_fs_entry F self fs acc) (fs_loop F self rest))"
    using preserves_fs_entry Cons.IH by (rule preserves_and_then)
  then show ?case by (simp add: preserves_def)
qed

lemma preserves_fs: "preserves (check_fs F self summary)"
proof -
  have "preserves (fs_loop F self entries)" for entries by (rule preserves_fs_loop)
  then show ?thesis
    unfolding preserves_def check_fs_def
    by (auto simp: Let_def split: pyval.splits if_splits)
qed

lemma preserves_fs_readonly: "preserves (check_fs_readonly self summary)"
  unfolding preserves_def check_fs_readonly_def
  by (auto simp: and_then_Inr_iff well_formed_def messages_nonempty Let_def split: if_splits)

lemma preserves_network_err: "preserves (check_network_err F self summary)"
  unfolding preserves_def check_network_err_def
  by (auto simp: and_then_Inr_iff well_formed_def messages_nonempty Let_def split: if_splits)

lemma preserves_tcp_retrans: "preserves (check_tcp_retrans F self summary)"
  unfolding preserves_def check_tcp_retrans_def
  by (auto simp: and_then_Inr_iff well_formed_def messages_nonempty Let_def split: if_splits)

lemma preserves_tcp_overflow: "preserves (check_tcp_overflow F self summary)"
  unfolding preserves_def check_tcp_overflow_def
  by (auto simp: and_then_Inr_iff well_formed_def messages_nonempty Let_def split: if_splits)

lemma preserves_run_checks: "list_all preserves cs \<Longrightarrow> preserves (run_checks cs)"
proof (induction cs)
  case Nil
  show ?case by (simp add: preserves_def)
next
  case (Cons c cs)
  then have "preserves c" and "preserves (run_checks cs)" by simp_all
  then have "preserves (\<lambda>acc. and_then (c acc) (run_checks cs))"
    by (rule preserves_and_then)
  then show ?case by (simp add: preserves_def)
qed

lemma checks_preserve: "list_all preserves (checks F self summary)"
  by (simp add: checks_def preserves_up preserves_cpu preserves_iowait preserves_load1
      preserves_memory preserves_swap preserves_fs preserves_fs_readonly
      preserves_network_err preserves_tcp_retrans preserves_tcp_overflow)

lemma evaluate_well_formed:
  assumes "evaluate F self summary = Inr (anoms, score)"
  shows "list_all well_formed anoms"
proof -
  have "preserves (run_checks (checks F self summary))"
    by (rule preserves_run_checks) (rule checks_preserve)
  with assms show ?thesis
    unfolding preserves_def evaluate_def by fastforce
qed

section \<open>The result of \<open>detect\<close>\<close>

text \<open>
  C9. Whatever the summary and the injected configuration, a result that \<open>detect\<close>
  returns is consistent: \<open>is_anomaly\<close> holds exactly when the anomaly list is not empty,
  \<open>anomaly_count\<close> is the length of the list, and every record of the list has a
  non-empty message and the severity \<open>warning\<close> or \<open>critical\<close>.
\<close>

theorem detect_result_consistent:
  assumes "detect F self summary = Inr r"
  shows "(is_anomaly r \<longleftrightarrow> anomalies r \<noteq> []) \<and>
         anomaly_count r = length (anomalies r) \<and>
         (\<forall>a \<in> set (anomalies r).
            message a \<noteq> [] \<and> (severity a = ''warning'' \<or> severity a = ''critical''))"
proof -
  from assms obtain anoms raw tier where
    ev: "evaluate F self summary = Inr (anoms, raw)" and
    r: "r = \<lparr>is_anomaly = (length anoms > 0), anomalies = anoms, overall_severity = tier,
             severity_score = min 100 raw, anomaly_count = length anoms\<rparr>"
    unfolding detect_Inr_iff by blast
  from ev have "list_all well_formed anoms" by (rule evaluate_well_formed)
  then have "\<forall>a \<in> set anoms.
      message a \<noteq> [] \<and> (severity a = ''warning'' \<or> severity a = ''critical'')"
    by (simp add: list_all_iff well_formed_def)
  with r show ?thesis by simp
qed

theorem detect_result_consistent_witness:
  "detect placeholder_formatting default_detector
     [(''up'', PNum 0), (''cpu_usage'', PNum 97)] =
     Inr \<lparr>is_anomaly = True,
          anomalies =
            [\<lparr>metric = ''up'', message = message_up, severity = ''critical'',
              val = 0, threshold = None, mountpoint = None\<rparr>,
             \<lparr>metric = ''cpu_usage'', message = message_cpu_usage placeholder_formatting 97,
              severity = ''critical'', val = 97, threshold = Some 80, mountpoint = None\<rparr>],
          overall_severity = ''critical'', severity_score = 100, anomaly_count = 2\<rparr>
   \<and> message_up \<noteq> [] \<and> message_cpu_usage placeholder_formatting 97 \<noteq> []"
proof -
  let ?r = "\<lparr>is_anomaly = True,
          anomalies =
            [\<lparr>metric = ''up'', message = message_up, severity = ''critical'',
              val = 0, threshold = None, mountpoint = None\<rparr>,
             \<lparr>metric = ''cpu_usage'', message = message_cpu_usage placeholder_formatting 97,
              severity = ''critical'', val = 97, threshold = Some 80, mountpoint = None\<rparr>],
          overall_severity = ''critical'', severity_score = 100, anomaly_count = 2\<rparr>"
  have h: "detect placeholder_formatting default_detector
     [(''up'', PNum 0), (''cpu_usage'', PNum 97)] = Inr ?r"
    by (simp add: run_defs)
  from detect_result_consistent [OF h] h show ?thesis by simp
qed

text \<open>
  C1. The tier of a result is the classification of the raw accumulated score, and the
  \<open>severity_score\<close> of the result is that raw score capped at 100. The summary with
  \<open>up = 0\<close> and \<open>fs_readonly = 1\<close> has the raw score 150 under the default
  configuration; its result has the tier \<open>critical\<close> and the score 100. With a
  \<open>critical\<close> cutoff of 120 injected, the same summary is still \<open>critical\<close>, although
  the capped score 100 would classify as \<open>high\<close>: the cap plays no part in the tier.
\<close>

theorem severity_from_raw_score:
  "(\<forall>r. detect F self summary = Inr r \<longrightarrow>
      (\<exists>anoms raw. evaluate F self summary = Inr (anoms, raw) \<and>
         calculate_severity self raw = Inr (overall_severity r) \<and>
         severity_score r = min 100 raw))
   \<and> (\<exists>anoms. evaluate F default_detector [(''up'', PNum 0), (''fs_readonly'', PNum 1)] =
         Inr (anoms, 150))
   \<and> (\<exists>r. detect F default_detector [(''up'', PNum 0), (''fs_readonly'', PNum 1)] = Inr r \<and>
         overall_severity r = ''critical'' \<and> severity_score r = 100)
   \<and> (\<exists>r. detect F
              (init None None
                 (Some [(''critical'', 120), (''high'', 40), (''medium'', 20), (''low'', 1)]))
              [(''up'', PNum 0), (''fs_readonly'', PNum 1)] = Inr r \<and>
         overall_severity r = ''critical'' \<and> severity_score r = 100 \<and>
         calculate_severity
           (init None None
              (Some [(''critical'', 120), (''high'', 40), (''medium'', 20), (''low'', 1)]))
           (severity_score r) = Inr ''high'')"
proof (intro conjI allI impI)
  fix r
  assume "detect F self summary = Inr r"
  then show "\<exists>anoms raw. evaluate F self summary = Inr (anoms, raw) \<and>
         calculate_severity self raw = Inr (overall_severity r) \<and>
         severity_score r = min 100 raw"
    unfolding detect_Inr_iff by auto
qed (simp_all add: run_defs)

theorem severity_from_raw_score_witness:
  "detect placeholder_formatting default_detector
     [(''up'', PNum 0), (''fs_readonly'', PNum 1)] =
     Inr \<lparr>is_anomaly = True,
          anomalies =
            [\<lparr>metric = ''up'', message = message_up, severity = ''critical'',
              val = 0, threshold = None, mountpoint = None\<rparr>,
             \<lparr>metric = ''fs_readonly'', message = message_fs_readonly,
              severity = ''critical'', val = 1, threshold = None, mountpoint = None\<rparr>],
          overall_severity = ''critical'', severity_score = 100, anomaly_count = 2\<rparr>
   \<and> (\<exists>anoms raw.
         evaluate placeholder_formatting default_detector
           [(''up'', PNum 0), (''fs_readonly'', PNum 1)] = Inr (anoms, raw) \<and>
         calculate_severity default_detector raw = Inr ''critical'' \<and>
         (100 :: real) = min 100 raw)"
proof -
  let ?r = "\<lparr>is_anomaly = True,
          anomalies =
            [\<lparr>metric = ''up'', message = message_up, severity = ''critical'',
              val = 0, threshold = None, mountpoint = None\<rparr>,
             \<lparr>metric = ''fs_readonly'', message = message_fs_readonly,
              severity = ''critical'', val = 1, threshold = None, mountpoint = None\<rparr>],
          overall_severity = ''critical'', severity_score = 100, anomaly_count = 2\<rparr>"
  have h: "detect placeholder_formatting default_detector
     [(''up'', PNum 0), (''fs_readonly'', PNum 1)] = Inr ?r"
    by (simp add: run_defs)
  have "\<forall>r. detect placeholder_formatting default_detector
           [(''up'', PNum 0), (''fs_readonly'', PNum 1)] = Inr r \<longrightarrow>
      (\<exists>anoms raw.
         evaluate placeholder_formatting default_detector
           [(''up'', PNum 0), (''fs_readonly'', PNum 1)] = Inr (anoms, raw) \<and>
         calculate_severity default_detector raw = Inr (overall_severity r) \<and>
         severity_score r = min 100 raw)"
    using severity_from_raw_score
      [of placeholder_formatting default_detector
          "[(''up'', PNum 0), (''fs_readonly'', PNum 1)]"]
    by (rule conjunct1)
  then have "\<exists>anoms raw.
         evaluate placeholder_formatting default_detector
           [(''up'', PNum 0), (''fs_readonly'', PNum 1)] = Inr (anoms, raw) \<and>
         calculate_severity default_detector raw = Inr (overall_severity ?r) \<and>
         severity_score ?r = min 100 raw"
    using h by blast
  with h show ?thesis by simp
qed

text \<open>
  C2. The specification has \<open>detect\<close> never raise, a field that is missing, null or
  of an unexpected shape being skipped. The code raises on a null rate: under the default
  configuration a summary whose \<open>network_err_per_sec\<close>, \<open>tcp_retrans_per_sec\<close>,
  \<open>tcp_listen_overflow_per_sec\<close> or \<open>fs_readonly\<close> is \<open>None\<close> ends in
  \<open>TypeError\<close>, as does a rate that is a string; a file-system entry that is not a
  dictionary ends in \<open>AttributeError\<close>. The checks guarded by \<open>is not None\<close> do skip
  a null: a null \<open>cpu_usage\<close> gives the empty result.
\<close>

theorem detect_raises_on_null_rate:
  "detect F default_detector [(''network_err_per_sec'', PNone)] = Inl TypeError
   \<and> detect F default_detector [(''tcp_retrans_per_sec'', PNone)] = Inl TypeError
   \<and> detect F default_detector [(''tcp_listen_overflow_per_sec'', PNone)] = Inl TypeError
   \<and> detect F default_detector [(''fs_readonly'', PNone)] = Inl TypeError
   \<and> detect F default_detector [(''network_err_per_sec'', PStr ''n/a'')] = Inl TypeError
   \<and> detect F default_detector [(''fs_usage_top3'', PList [PNum 92])] = Inl AttributeError
   \<and> detect F default_detector [(''cpu_usage'', PNone)] =
       Inr \<lparr>is_anomaly = False, anomalies = [], overall_severity = ''normal'',
            severity_score = 0, anomaly_count = 0\<rparr>"
  by (simp add: run_defs)

text \<open>
  C3. A summary in which none of the fields that \<open>detect\<close> reads is present, the empty
  summary among them, gives \<open>is_anomaly = false\<close>, no anomalies, the score 0 and the
  tier \<open>normal\<close>. The thresholds and the tiers are the default ones; the weights may be
  any, as none is looked up.
\<close>

theorem detect_all_absent:
  assumes "\<forall>k \<in> set consulted_keys. map_of summary k = None"
  shows "detect F (init None weights_arg None) summary =
     Inr \<lparr>is_anomaly = False, anomalies = [], overall_severity = ''normal'',
          severity_score = 0, anomaly_count = 0\<rparr>"
  using assms
  by (simp add: consulted_keys_def detect_def evaluate_def checks_def check_defs
      dict_get_def dict_get_default_def getitem_simps init_def THRESHOLDS_def
      SEVERITY_THRESHOLDS_def calculate_severity_def)

theorem detect_all_absent_witness:
  "list_all (\<lambda>k. map_of ([] :: pyval dict) k = None) consulted_keys \<and>
   detect placeholder_formatting (init None None None) [] =
     Inr \<lparr>is_anomaly = False, anomalies = [], overall_severity = ''normal'',
          severity_score = 0, anomaly_count = 0\<rparr>"
proof -
  have h: "\<forall>k \<in> set consulted_keys. map_of ([] :: pyval dict) k = None" by simp
  from detect_all_absent [OF h, of placeholder_formatting None] h show ?thesis
    by (simp add: list_all_iff)
qed

text \<open>
  C10. An empty dictionary passed for the thresholds, the weights or the severity
  thresholds builds the same detector as \<open>None\<close> passed for that argument: the default
  configuration takes its place.
\<close>

theorem init_empty_is_default:
  "init (Some []) weights_arg tiers_arg = init None weights_arg tiers_arg
   \<and> init thresholds_arg (Some []) tiers_arg = init thresholds_arg None tiers_arg
   \<and> init thresholds_arg weights_arg (Some []) = init thresholds_arg weights_arg None
   \<and> init (Some []) (Some []) (Some []) =
       \<lparr>thresholds = THRESHOLDS, weights = SEVERITY_WEIGHTS,
        severity_thresholds = SEVERITY_THRESHOLDS\<rparr>"
  by (simp add: init_def)

text \<open>
  C7. Under the default configuration the summary with only
  \<open>tcp_listen_overflow_per_sec = 0.05\<close> gives exactly one anomaly record and the raw
  score \<open>min(20, 0.05 * 2) = 0.1\<close>; the tier is \<open>normal\<close> and \<open>is_anomaly\<close> is true.
\<close>

theorem overflow_below_low_cutoff:
  "evaluate F default_detector [(''tcp_listen_overflow_per_sec'', PNum (5 / 100))] =
     Inr ([\<lparr>metric = ''tcp_listen_overflow_per_sec'',
            message = message_tcp_overflow F (5 / 100),
            severity = ''warning'', val = 5 / 100, threshold = None, mountpoint = None\<rparr>],
          1 / 10)
   \<and> min 20 (5 / 100 * 2) = (1 / 10 :: real)
   \<and> detect F default_detector [(''tcp_listen_overflow_per_sec'', PNum (5 / 100))] =
     Inr \<lparr>is_anomaly = True,
          anomalies =
            [\<lparr>metric = ''tcp_listen_overflow_per_sec'',
              message = message_tcp_overflow F (5 / 100),
              severity = ''warning'', val = 5 / 100, threshold = None, mountpoint = None\<rparr>],
          overall_severity = ''normal'', severity_score = 1 / 10, anomaly_count = 1\<rparr>"
  by (simp add: run_defs)

section \<open>The severity classifier\<close>

text \<open>
  C4. When the tier configuration has all four tiers, the classifier returns the first
  tier, going down from \<open>critical\<close>, whose configured minimum is at most the score, and
  \<open>normal\<close> when there is none; that tier is the highest one whose minimum is at most
  the score. Under the default configuration the tiers are \<open>normal\<close> below 1, \<open>low\<close>
  from 1, \<open>medium\<close> from 20, \<open>high\<close> from 40 and \<open>critical\<close> from 80.
\<close>

theorem classifier_selects_highest_tier:
  "((\<forall>t \<in> set tier_names. map_of (severity_thresholds self) t = Some (minimum t)) \<longrightarrow>
      calculate_severity self s = Inr (classify_spec minimum s) \<and>
      (\<forall>t \<in> set tier_names. minimum t \<le> s \<longrightarrow>
          tier_rank t \<le> tier_rank (classify_spec minimum s)) \<and>
      (classify_spec minimum s = ''normal'' \<longleftrightarrow> (\<forall>t \<in> set tier_names. \<not> minimum t \<le> s)) \<and>
      (classify_spec minimum s \<noteq> ''normal'' \<longrightarrow>
          classify_spec minimum s \<in> set tier_names \<and> minimum (classify_spec minimum s) \<le> s))
   \<and> calculate_severity default_detector s =
       Inr (if s < 1 then ''normal'' else if s < 20 then ''low'' else if s < 40 then ''medium''
            else if s < 80 then ''high'' else ''critical'')"
proof (intro conjI impI)
  assume cfg: "\<forall>t \<in> set tier_names. map_of (severity_thresholds self) t = Some (minimum t)"
  then have
    "getitem (severity_thresholds self) ''critical'' = Inr (minimum ''critical'')"
    "getitem (severity_thresholds self) ''high'' = Inr (minimum ''high'')"
    "getitem (severity_thresholds self) ''medium'' = Inr (minimum ''medium'')"
    "getitem (severity_thresholds self) ''low'' = Inr (minimum ''low'')"
    by (simp_all add: tier_names_def getitem_Some)
  then show "calculate_severity self s = Inr (classify_spec minimum s)"
    by (simp add: calculate_severity_def classify_spec_def tier_names_def)
  show "\<forall>t \<in> set tier_names. minimum t \<le> s \<longrightarrow>
          tier_rank t \<le> tier_rank (classify_spec minimum s)"
    by (simp add: classify_spec_def tier_names_def tier_rank_def)
  show "classify_spec minimum s = ''normal'' \<longleftrightarrow> (\<forall>t \<in> set tier_names. \<not> minimum t \<le> s)"
    by (simp add: classify_spec_def tier_names_def)
  show "classify_spec minimum s \<in> set tier_names" if "classify_spec minimum s \<noteq> ''normal''"
    using that by (simp add: classify_spec_def tier_names_def split: if_splits)
  show "minimum (classify_spec minimum s) \<le> s" if "classify_spec minimum s \<noteq> ''normal''"
    using that by (simp add: classify_spec_def tier_names_def split: if_splits)
next
  show "calculate_severity default_detector s =
       Inr (if s < 1 then ''normal'' else if s < 20 then ''low'' else if s < 40 then ''medium''
            else if s < 80 then ''high'' else ''critical'')"
    by (rule calculate_severity_default)
qed

theorem classifier_selects_highest_tier_witness:
  "list_all
     (\<lambda>t. map_of (severity_thresholds default_detector) t =
          Some (if t = ''critical'' then 80 else if t = ''high'' then 40
                else if t = ''medium'' then 20 else 1))
     tier_names
   \<and> calculate_severity default_detector 25 = Inr ''medium''
   \<and> classify_spec
       (\<lambda>t. if t = ''critical'' then 80 else if t = ''high'' then 40
            else if t = ''medium'' then 20 else 1) 25 = ''medium''"
proof -
  let ?m = "\<lambda>t. if t = ''critical'' then 80 else if t = ''high'' then 40
            else if t = ''medium'' then 20 else (1 :: real)"
  have h: "\<forall>t \<in> set tier_names.
      map_of (severity_thresholds default_detector) t = Some (?m t)"
    by (simp add: tier_names_def default_defs)
  have c: "classify_spec ?m 25 = ''medium''"
    by (simp add: classify_spec_def tier_names_def)
  from classifier_selects_highest_tier [of default_detector ?m 25] h
  have "calculate_severity default_detector 25 = Inr (classify_spec ?m 25)"
    by blast
  with h c show ?thesis by (simp add: list_all_iff)
qed

text \<open>
  C5. Under the default tier configuration the classifier is total, it returns a tier
  for every raw score, and it is monotone: a score that is not smaller gets a tier that
  is not lower in the order \<open>normal < low < medium < high < critical\<close>.
\<close>

theorem classifier_total_monotone:
  "(\<exists>t. calculate_severity default_detector s = Inr t) \<and>
   (\<forall>s1 s2 t1 t2. s1 \<le> s2 \<longrightarrow>
      calculate_severity default_detector s1 = Inr t1 \<longrightarrow>
      calculate_severity default_detector s2 = Inr t2 \<longrightarrow>
      tier_rank t1 \<le> tier_rank t2)"
proof (intro conjI allI impI)
  show "\<exists>t. calculate_severity default_detector s = Inr t"
    by (simp add: calculate_severity_default)
next
  fix s1 s2 :: real and t1 t2
  assume le: "s1 \<le> s2"
    and c1: "calculate_severity default_detector s1 = Inr t1"
    and c2: "calculate_severity default_detector s2 = Inr t2"
  from c1 have t1: "t1 = (if s1 < 1 then ''normal'' else if s1 < 20 then ''low''
      else if s1 < 40 then ''medium'' else if s1 < 80 then ''high'' else ''critical'')"
    by (simp add: calculate_severity_default)
  from c2 have t2: "t2 = (if s2 < 1 then ''normal'' else if s2 < 20 then ''low''
      else if s2 < 40 then ''medium'' else if s2 < 80 then ''high'' else ''critical'')"
    by (simp add: calculate_severity_default)
  from le show "tier_rank t1 \<le> tier_rank t2"
    unfolding t1 t2 by (simp add: tier_rank_def)
qed

theorem classifier_total_monotone_witness:
  "(10 :: real) \<le> 50
   \<and> calculate_severity default_detector 10 = Inr ''low''
   \<and> calculate_severity default_detector 50 = Inr ''high''
   \<and> tier_rank ''low'' \<le> tier_rank ''high''"
proof -
  have le: "(10 :: real) \<le> 50" by simp
  have c1: "calculate_severity default_detector 10 = Inr ''low''"
    by (simp add: calculate_severity_default)
  have c2: "calculate_severity default_detector 50 = Inr ''high''"
    by (simp add: calculate_severity_default)
  from classifier_total_monotone [of 0] le c1 c2
  have "tier_rank ''low'' \<le> tier_rank ''high''" by blast
  with le c1 c2 show ?thesis by simp
qed

section \<open>Boundary cases of single checks\<close>

text \<open>
  C6. With the default CPU threshold 80, \<open>cpu_usage = 94.9\<close> gives one
  \<open>cpu_usage\<close> anomaly tagged \<open>warning\<close> and \<open>cpu_usage = 95.0\<close> gives one tagged
  \<open>critical\<close>; the raw score is \<open>min(30, (v - 80) / 2)\<close> in both cases. For any
  configured threshold \<open>t\<close> and weight \<open>w\<close>, a value above \<open>t\<close> is tagged
  \<open>warning\<close> exactly when it is below 95 and contributes \<open>min(w, (v - t) / 2)\<close>.
\<close>

theorem cpu_tag_flips_at_95:
  "evaluate F default_detector [(''cpu_usage'', PNum (949 / 10))] =
     Inr ([\<lparr>metric = ''cpu_usage'', message = message_cpu_usage F (949 / 10),
            severity = ''warning'', val = 949 / 10, threshold = Some 80,
            mountpoint = None\<rparr>],
          min 30 ((949 / 10 - 80) / 2))
   \<and> evaluate F default_detector [(''cpu_usage'', PNum 95)] =
     Inr ([\<lparr>metric = ''cpu_usage'', message = message_cpu_usage F 95,
            severity = ''critical'', val = 95, threshold = Some 80, mountpoint = None\<rparr>],
          min 30 ((95 - 80) / 2))
   \<and> detect F default_detector [(''cpu_usage'', PNum (949 / 10))] =
     Inr \<lparr>is_anomaly = True,
          anomalies =
            [\<lparr>metric = ''cpu_usage'', message = message_cpu_usage F (949 / 10),
              severity = ''warning'', val = 949 / 10, threshold = Some 80,
              mountpoint = None\<rparr>],
          overall_severity = ''low'', severity_score = 149 / 20, anomaly_count = 1\<rparr>
   \<and> detect F default_detector [(''cpu_usage'', PNum 95)] =
     Inr \<lparr>is_anomaly = True,
          anomalies =
            [\<lparr>metric = ''cpu_usage'', message = message_cpu_usage F 95,
              severity = ''critical'', val = 95, threshold = Some 80, mountpoint = None\<rparr>],
          overall_severity = ''low'', severity_score = 15 / 2, anomaly_count = 1\<rparr>
   \<and> (\<forall>v t w anoms score.
        map_of (thresholds self) ''cpu_usage'' = Some t \<and>
        map_of (weights self) ''cpu_high'' = Some w \<and> v > t \<longrightarrow>
        check_cpu F self [(''cpu_usage'', PNum v)] (anoms, score) =
          Inr (anoms @
                 [\<lparr>metric = ''cpu_usage'', message = message_cpu_usage F v,
                   severity = (if v < 95 then ''warning'' else ''critical''),
                   val = v, threshold = Some t, mountpoint = None\<rparr>],
               score + min w ((v - t) / 2)))"
proof (intro conjI allI impI)
  fix v t w :: real and anoms :: "anomaly list" and score :: real
  assume "map_of (thresholds self) ''cpu_usage'' = Some t \<and>
        map_of (weights self) ''cpu_high'' = Some w \<and> v > t"
  then show "check_cpu F self [(''cpu_usage'', PNum v)] (anoms, score) =
          Inr (anoms @
                 [\<lparr>metric = ''cpu_usage'', message = message_cpu_usage F v,
                   severity = (if v < 95 then ''warning'' else ''critical''),
                   val = v, threshold = Some t, mountpoint = None\<rparr>],
               score + min w ((v - t) / 2))"
    by (simp add: check_cpu_def dict_get_def getitem_Some CRITICAL_USAGE_THRESHOLD_def)
qed (simp_all add: run_defs)

theorem cpu_tag_flips_at_95_witness:
  "map_of (thresholds (init (Some [(''cpu_usage'', 50)]) None None)) ''cpu_usage'' = Some 50
   \<and> map_of (weights (init (Some [(''cpu_usage'', 50)]) None None)) ''cpu_high'' = Some 30
   \<and> (96 :: real) > 50
   \<and> check_cpu placeholder_formatting (init (Some [(''cpu_usage'', 50)]) None None)
        [(''cpu_usage'', PNum 96)] ([], 0) =
        Inr ([\<lparr>metric = ''cpu_usage'',
               message = message_cpu_usage placeholder_formatting 96,
               severity = ''critical'', val = 96, threshold = Some 50, mountpoint = None\<rparr>],
             23)"
proof -
  let ?d = "init (Some [(''cpu_usage'', 50)]) None None"
  have h: "map_of (thresholds ?d) ''cpu_usage'' = Some 50 \<and>
           map_of (weights ?d) ''cpu_high'' = Some 30 \<and> (96 :: real) > 50"
    by (simp add: init_def SEVERITY_WEIGHTS_def)
  from cpu_tag_flips_at_95 [of placeholder_formatting ?d] h
  have "check_cpu placeholder_formatting ?d [(''cpu_usage'', PNum 96)] ([], 0) =
          Inr ([] @
                 [\<lparr>metric = ''cpu_usage'',
                   message = message_cpu_usage placeholder_formatting 96,
                   severity = (if (96 :: real) < 95 then ''warning'' else ''critical''),
                   val = 96, threshold = Some 50, mountpoint = None\<rparr>],
               0 + min 30 ((96 - 50) / 2))"
    by blast
  with h show ?thesis by simp
qed

text \<open>The loop over well-shaped samples: every sample is looked at, in order, and each
  one above the threshold adds its own record and its own capped contribution.\<close>

lemma check_fs_entry_sample:
  "check_fs_entry F default_detector (fs_sample labels v) (anoms, score) =
     (if v > 90 then Inr (anoms @ [fs_anomaly F (labels, v)], score + min 20 ((v - 90) / 2))
      else Inr (anoms, score))"
  by (simp add: check_fs_entry_def fs_sample_def fs_anomaly_def dict_get_def
      dict_get_default_def getitem_simps default_defs Let_def)

lemma fs_loop_samples:
  "fs_loop F default_detector (map (\<lambda>(labels, v). fs_sample labels v) es) (anoms, score) =
     Inr (anoms @ map (fs_anomaly F) (filter (\<lambda>(labels, v). v > 90) es),
          score + sum_list (map (\<lambda>(labels, v). min 20 ((v - 90) / 2))
                                (filter (\<lambda>(labels, v). v > 90) es)))"
proof (induction es arbitrary: anoms score)
  case Nil
  show ?case by simp
next
  case (Cons e es)
  obtain labels v where e: "e = (labels, v)" by (cases e)
  show ?case
    by (simp add: e check_fs_entry_sample Cons.IH add.assoc)
qed

lemma other_checks_skip_fs_only:
  "check_up default_detector [(''fs_usage_top3'', x)] acc = Inr acc"
  "check_cpu F default_detector [(''fs_usage_top3'', x)] acc = Inr acc"
  "check_iowait F default_detector [(''fs_usage_top3'', x)] acc = Inr acc"
  "check_load1 F default_detector [(''fs_usage_top3'', x)] acc = Inr acc"
  "check_memory F default_detector [(''fs_usage_top3'', x)] acc = Inr acc"
  "check_swap F default_detector [(''fs_usage_top3'', x)] acc = Inr acc"
  "check_fs_readonly default_detector [(''fs_usage_top3'', x)] acc = Inr acc"
  "check_network_err F default_detector [(''fs_usage_top3'', x)] acc = Inr acc"
  "check_tcp_retrans F default_detector [(''fs_usage_top3'', x)] acc = Inr acc"
  "check_tcp_overflow F default_detector [(''fs_usage_top3'', x)] acc = Inr acc"
  by (simp_all add: check_up_def check_cpu_def check_iowait_def check_load1_def
      check_memory_def check_swap_def check_fs_readonly_def check_network_err_def
      check_tcp_retrans_def check_tcp_overflow_def dict_get_def dict_get_default_def
      getitem_simps default_defs split: prod.split)

lemma evaluate_fs_samples:
  "evaluate F default_detector
     [(''fs_usage_top3'', PList (map (\<lambda>(labels, v). fs_sample labels v) es))] =
     Inr (map (fs_anomaly F) (filter (\<lambda>(labels, v). v > 90) es),
          sum_list (map (\<lambda>(labels, v). min 20 ((v - 90) / 2))
                        (filter (\<lambda>(labels, v). v > 90) es)))"
proof (cases es)
  case Nil
  then show ?thesis by (simp add: run_defs)
next
  case (Cons e es')
  have loop: "fs_loop F default_detector (map (\<lambda>(labels, v). fs_sample labels v) es) ([], 0) =
     Inr (map (fs_anomaly F) (filter (\<lambda>(labels, v). v > 90) es),
          sum_list (map (\<lambda>(labels, v). min 20 ((v - 90) / 2))
                        (filter (\<lambda>(labels, v). v > 90) es)))"
    using fs_loop_samples [of F es "[]" 0] by simp
  have fs: "check_fs F default_detector
      [(''fs_usage_top3'', PList (map (\<lambda>(labels, v). fs_sample labels v) es))] ([], 0) =
     Inr (map (fs_anomaly F) (filter (\<lambda>(labels, v). v > 90) es),
          sum_list (map (\<lambda>(labels, v). min 20 ((v - 90) / 2))
                        (filter (\<lambda>(labels, v). v > 90) es)))"
    using loop Cons by (simp add: check_fs_def dict_get_def)
  show ?thesis
    unfolding evaluate_def checks_def
    by (simp add: fs other_checks_skip_fs_only)
qed

text \<open>
  C8. The file-system check looks at each entry on its own. Under the default
  configuration (disk threshold 90) the summary with the entries \<open>/\<close> at 92.0 and
  \<open>/data\<close> at 60.0 gives exactly one anomaly, for \<open>/\<close>, with the value 92.0, the tag
  \<open>warning\<close> and the score \<open>min(20, (92 - 90) / 2) = 1\<close>. For every list of samples,
  the anomalies are the records of exactly the samples above the threshold, in the order
  of the list, and the raw score is the sum of their contributions
  \<open>min(20, (v - 90) / 2)\<close>; so the same two entries in the other order still give the
  one anomaly for \<open>/\<close>, and a list with \<open>/\<close> at 92.0, \<open>/data\<close> at 60.0 and
  \<open>/var\<close> at 97.0 gives two anomalies and the raw score \<open>1 + 3.5\<close>. An entry above
  the threshold whose labels have no \<open>mountpoint\<close> key, or that has no labels at all,
  gives a record with the mount point \<open>unknown\<close> and raises nothing.
\<close>

theorem fs_check_per_entry:
  "detect F default_detector
     [(''fs_usage_top3'',
       PList [PDict [(''labels'', PDict [(''mountpoint'', PStr ''/'')]), (''value'', PNum 92)],
              PDict [(''labels'', PDict [(''mountpoint'', PStr ''/data'')]),
                     (''value'', PNum 60)]])] =
     Inr \<lparr>is_anomaly = True,
          anomalies =
            [\<lparr>metric = ''fs_usage'', message = message_fs_usage F (PStr ''/'') 92,
              severity = ''warning'', val = 92, threshold = Some 90,
              mountpoint = Some (PStr ''/'')\<rparr>],
          overall_severity = ''low'', severity_score = 1, anomaly_count = 1\<rparr>
   \<and> min 20 ((92 - 90) / 2) = (1 :: real)
   \<and> (\<forall>es.
        evaluate F default_detector
          [(''fs_usage_top3'',
            PList (map (\<lambda>(labels, v). PDict [(''labels'', PDict labels), (''value'', PNum v)])
                       es))] =
          Inr (map (\<lambda>(labels, v).
                      \<lparr>metric = ''fs_usage'',
                       message =
                         message_fs_usage F
                           (dict_get_default labels ''mountpoint'' (PStr ''unknown'')) v,
                       severity = (if v < 95 then ''warning'' else ''critical''),
                       val = v, threshold = Some 90,
                       mountpoint =
                         Some (dict_get_default labels ''mountpoint'' (PStr ''unknown''))\<rparr>)
                 (filter (\<lambda>(labels, v). v > 90) es),
               sum_list (map (\<lambda>(labels, v). min 20 ((v - 90) / 2))
                             (filter (\<lambda>(labels, v). v > 90) es))))
   \<and> detect F default_detector
       [(''fs_usage_top3'',
         PList [PDict [(''labels'', PDict [(''mountpoint'', PStr ''/data'')]),
                       (''value'', PNum 60)],
                PDict [(''labels'', PDict [(''mountpoint'', PStr ''/'')]),
                       (''value'', PNum 92)]])] =
     Inr \<lparr>is_anomaly = True,
          anomalies =
            [\<lparr>metric = ''fs_usage'', message = message_fs_usage F (PStr ''/'') 92,
              severity = ''warning'', val = 92, threshold = Some 90,
              mountpoint = Some (PStr ''/'')\<rparr>],
          overall_severity = ''low'', severity_score = 1, anomaly_count = 1\<rparr>
   \<and> detect F default_detector
       [(''fs_usage_top3'',
         PList [PDict [(''labels'', PDict [(''mountpoint'', PStr ''/'')]), (''value'', PNum 92)],
                PDict [(''labels'', PDict [(''mountpoint'', PStr ''/data'')]),
                       (''value'', PNum 60)],
                PDict [(''labels'', PDict [(''mountpoint'', PStr ''/var'')]),
                       (''value'', PNum 97)]])] =
     Inr \<lparr>is_anomaly = True,
          anomalies =
            [\<lparr>metric = ''fs_usage'', message = message_fs_usage F (PStr ''/'') 92,
              severity = ''warning'', val = 92, threshold = Some 90,
              mountpoint = Some (PStr ''/'')\<rparr>,
             \<lparr>metric = ''fs_usage'', message = message_fs_usage F (PStr ''/var'') 97,
              severity = ''critical'', val = 97, threshold = Some 90,
              mountpoint = Some (PStr ''/var'')\<rparr>],
          overall_severity = ''low'', severity_score = 1 + 7 / 2, anomaly_count = 2\<rparr>
   \<and> (\<forall>entry v anoms score.
        dict_get entry ''value'' = PNum v \<and> v > 90 \<and>
        (map_of entry ''labels'' = None \<or>
         (\<exists>labels. map_of entry ''labels'' = Some (PDict labels) \<and>
                   map_of labels ''mountpoint'' = None)) \<longrightarrow>
        check_fs_entry F default_detector (PDict entry) (anoms, score) =
          Inr (anoms @
                 [\<lparr>metric = ''fs_usage'',
                   message = message_fs_usage F (PStr ''unknown'') v,
                   severity = (if v < 95 then ''warning'' else ''critical''),
                   val = v, threshold = Some 90, mountpoint = Some (PStr ''unknown'')\<rparr>],
               score + min 20 ((v - 90) / 2)))
   \<and> detect F default_detector
       [(''fs_usage_top3'', PList [PDict [(''labels'', PDict []), (''value'', PNum 92)]])] =
     Inr \<lparr>is_anomaly = True,
          anomalies =
            [\<lparr>metric = ''fs_usage'', message = message_fs_usage F (PStr ''unknown'') 92,
              severity = ''warning'', val = 92, threshold = Some 90,
              mountpoint = Some (PStr ''unknown'')\<rparr>],
          overall_severity = ''low'', severity_score = 1, anomaly_count = 1\<rparr>"
proof (intro conjI allI impI)
  fix es :: "(pyval dict \<times> real) list"
  show "evaluate F default_detector
          [(''fs_usage_top3'',
            PList (map (\<lambda>(labels, v). PDict [(''labels'', PDict labels), (''value'', PNum v)])
                       es))] =
          Inr (map (\<lambda>(labels, v).
                      \<lparr>metric = ''fs_usage'',
                       message =
                         message_fs_usage F
                           (dict_get_default labels ''mountpoint'' (PStr ''unknown'')) v,
                       severity = (if v < 95 then ''warning'' else ''critical''),
                       val = v, threshold = Some 90,
                       mountpoint =
                         Some (dict_get_default labels ''mountpoint'' (PStr ''unknown''))\<rparr>)
                 (filter (\<lambda>(labels, v). v > 90) es),
               sum_list (map (\<lambda>(labels, v). min 20 ((v - 90) / 2))
                             (filter (\<lambda>(labels, v). v > 90) es)))"
    using evaluate_fs_samples [of F es] by (simp add: fs_sample_def fs_anomaly_def)
next
  fix entry :: "pyval dict" and v :: real and anoms :: "anomaly list" and score :: real
  assume "dict_get entry ''value'' = PNum v \<and> v > 90 \<and>
        (map_of entry ''labels'' = None \<or>
         (\<exists>labels. map_of entry ''labels'' = Some (PDict labels) \<and>
                   map_of labels ''mountpoint'' = None))"
  then show "check_fs_entry F default_detector (PDict entry) (anoms, score) =
          Inr (anoms @
                 [\<lparr>metric = ''fs_usage'',
                   message = message_fs_usage F (PStr ''unknown'') v,
                   severity = (if v < 95 then ''warning'' else ''critical''),
                   val = v, threshold = Some 90, mountpoint = Some (PStr ''unknown'')\<rparr>],
               score + min 20 ((v - 90) / 2))"
    by (auto simp: check_fs_entry_def dict_get_default_def getitem_simps default_defs Let_def)
qed (simp_all add: run_defs)

theorem fs_check_per_entry_witness:
  "dict_get [(''value'', PNum 96)] ''value'' = PNum 96
   \<and> (96 :: real) > 90
   \<and> map_of [(''value'', PNum 96)] ''labels'' = None
   \<and> check_fs_entry placeholder_formatting default_detector
        (PDict [(''value'', PNum 96)]) ([], 0) =
        Inr ([\<lparr>metric = ''fs_usage'',
               message = message_fs_usage placeholder_formatting (PStr ''unknown'') 96,
               severity = ''critical'', val = 96, threshold = Some 90,
               mountpoint = Some (PStr ''unknown'')\<rparr>],
             3)"
proof -
  let ?e = "[(''value'', PNum 96)]"
  have h: "dict_get ?e ''value'' = PNum 96 \<and> (96 :: real) > 90 \<and>
           map_of ?e ''labels'' = None"
    by (simp add: dict_get_def)
  from fs_check_per_entry [of placeholder_formatting] h
  have "check_fs_entry placeholder_formatting default_detector (PDict ?e) ([], 0) =
          Inr ([] @
                 [\<lparr>metric = ''fs_usage'',
                   message = message_fs_usage placeholder_formatting (PStr ''unknown'') 96,
                   severity = (if (96 :: real) < 95 then ''warning'' else ''critical''),
                   val = 96, threshold = Some 90, mountpoint = Some (PStr ''unknown'')\<rparr>],
               0 + min 20 ((96 - 90) / 2))"
    by blast
  with h show ?thesis by simp
qed

end
